theory Spec2Isabelle
  imports Main "HOL-Library.Word"
begin

unbundle bit_operations_syntax

section \<open>Data model\<close>

text \<open>
  An \<open>ArrayBuffer\<close> or \<open>Uint8Array\<close> is the list of its bytes. A JavaScript string is a
  \<open>string\<close>.
\<close>

type_synonym byte = "8 word"
type_synonym bytes = "byte list"

text \<open>
  Every \<open>throw\<close> and every rejected promise of the source is a value of \<open>error\<close>:
  \<^item> \<open>InvalidEnvelope\<close> is \<open>Error('Invalid encrypted data: too short')\<close>;
  \<^item> \<open>InvalidKeyLength\<close> is \<open>Error('Invalid key length: expected 32 bytes')\<close>;
  \<^item> \<open>NotAuthenticated\<close> is \<open>Error('Not authenticated')\<close>;
  \<^item> \<open>AuthenticationFailure\<close> is the rejection of \<open>crypto.subtle.decrypt\<close>, which the
    source propagates unchanged;
  \<^item> \<open>DataError\<close> is the rejection of \<open>crypto.subtle.importKey\<close>;
  \<^item> \<open>TransportFailure\<close> and \<open>RegistryFailure\<close> are the failures of the Arweave upload
    and of the file registry, with their message;
  \<^item> \<open>InvalidTokenFormat\<close> is \<open>Error('Invalid token format')\<close> and
    \<open>MalformedPayload\<close> is what \<open>JSON.parse\<close> throws on a token's payload.
\<close>

datatype error =
    InvalidEnvelope
  | InvalidKeyLength
  | NotAuthenticated
  | AuthenticationFailure
  | DataError
  | TransportFailure string
  | RegistryFailure string
  | InvalidTokenFormat
  | MalformedPayload

text \<open>
  \<open>EncryptionKey = CryptoKey\<close>: the handle of an AES-GCM key. Every key the source
  makes (\<open>generateKey\<close>, \<open>importKey\<close>, \<open>deriveKey\<close>) is extractable, so the handle is
  the raw key bytes it exports; a key that is not extractable, on which \<open>exportKey\<close>
  rejects, is none of the model's keys.
\<close>

datatype CryptoKey = CryptoKey (key_data: bytes)

type_synonym EncryptionKey = CryptoKey

record EncryptedData =
  data :: bytes
  iv :: bytes

definition IV_LENGTH :: nat where
  "IV_LENGTH = 12"

definition ALGORITHM_name :: string where
  "ALGORITHM_name = ''AES-GCM''"

definition ALGORITHM_length :: nat where
  "ALGORITHM_length = 256"

section \<open>The platform\<close>

text \<open>
  The source runs on platform primitives that are no code of the repository: the Web
  Crypto cipher and key derivation, Node's \<open>Buffer\<close> base64 codec and \<open>TextEncoder\<close>.
  They are parameters of the model, the fields of \<open>platform\<close>:
  \<^item> \<open>aes_gcm_encrypt key iv data\<close> is
    \<open>crypto.subtle.encrypt({name: 'AES-GCM', iv}, key, data)\<close>, the ciphertext followed
    by the tag;
  \<^item> \<open>aes_gcm_decrypt key iv ciphertext\<close> is \<open>crypto.subtle.decrypt\<close> on the same
    parameters, \<open>None\<close> when the promise rejects;
  \<^item> \<open>pbkdf2_bits params password n\<close> is the \<open>n\<close> bits PBKDF2 derives;
  \<^item> \<open>toBase64 b\<close> is \<open>Buffer.from(b).toString('base64')\<close> and \<open>fromBase64 s\<close> is
    \<open>Buffer.from(s, 'base64')\<close>;
  \<^item> \<open>utf8_encode s\<close> is \<open>new TextEncoder().encode(s)\<close>.
\<close>

datatype hash_alg = SHA_1 | SHA_256 | SHA_384 | SHA_512

record Pbkdf2Params =
  kdf_salt :: bytes
  kdf_iterations :: nat
  kdf_hash :: hash_alg

record platform =
  aes_gcm_encrypt :: "CryptoKey \<Rightarrow> bytes \<Rightarrow> bytes \<Rightarrow> bytes"
  aes_gcm_decrypt :: "CryptoKey \<Rightarrow> bytes \<Rightarrow> bytes \<Rightarrow> bytes option"
  pbkdf2_bits :: "Pbkdf2Params \<Rightarrow> bytes \<Rightarrow> nat \<Rightarrow> bytes"
  toBase64 :: "bytes \<Rightarrow> string"
  fromBase64 :: "string \<Rightarrow> bytes"
  utf8_encode :: "string \<Rightarrow> bytes"

text \<open>
  The secure random source is a tape of bytes: \<open>crypto.getRandomValues(new Uint8Array(n))\<close>
  reads the next \<open>n\<close> bytes and leaves the rest of the tape.
\<close>

type_synonym entropy = "nat \<Rightarrow> byte"

definition getRandomValues :: "nat \<Rightarrow> entropy \<Rightarrow> bytes \<times> entropy" where
  "getRandomValues n ent = (map ent [0..<n], \<lambda>i. ent (i + n))"

text \<open>
  \<open>crypto.subtle.generateKey({name: 'AES-GCM', length}, true, ...)\<close>: a key of
  \<open>length\<close> random bits.
\<close>

definition subtle_generateKey :: "nat \<Rightarrow> entropy \<Rightarrow> CryptoKey \<times> entropy" where
  "subtle_generateKey bits ent =
     (let (raw, ent') = getRandomValues (bits div 8) ent in (CryptoKey raw, ent'))"

text \<open>
  \<open>crypto.subtle.importKey('raw', raw, {name: 'AES-GCM'}, true, ...)\<close>: Web Crypto
  rejects with a \<open>DataError\<close> unless the key data has 128, 192 or 256 bits.
  \<open>crypto.subtle.exportKey('raw', key)\<close> gives the key data back.
\<close>

definition subtle_importKey_raw :: "bytes \<Rightarrow> error + CryptoKey" where
  "subtle_importKey_raw raw =
     (if length raw \<in> {16, 24, 32} then Inr (CryptoKey raw) else Inl DataError)"

definition subtle_exportKey_raw :: "CryptoKey \<Rightarrow> bytes" where
  "subtle_exportKey_raw key = key_data key"

text \<open>
  \<open>crypto.subtle.deriveKey(params, passwordKey, {name: 'AES-GCM', length}, true, ...)\<close>:
  derives \<open>length\<close> bits from the password and imports them as an AES-GCM key.
\<close>

definition subtle_deriveKey :: "platform \<Rightarrow> Pbkdf2Params \<Rightarrow> bytes \<Rightarrow> nat \<Rightarrow> error + CryptoKey" where
  "subtle_deriveKey pf params passwordKey bits =
     subtle_importKey_raw (pbkdf2_bits pf params passwordKey bits)"

section \<open>HelixEncryption\<close>

definition generateKey :: "entropy \<Rightarrow> EncryptionKey \<times> entropy" where
  "generateKey ent = subtle_generateKey ALGORITHM_length ent"

text \<open>
  \<open>encrypt\<close>: a fresh IV from the random source, the cipher's output appended to it.
  The result carries the rest of the random tape.
\<close>

definition encrypt :: "platform \<Rightarrow> bytes \<Rightarrow> EncryptionKey \<Rightarrow> entropy \<Rightarrow> EncryptedData \<times> entropy" where
  "encrypt pf dat key ent =
     (let (iv, ent') = getRandomValues IV_LENGTH ent;
          ciphertext = aes_gcm_encrypt pf key iv dat;
          combined = iv @ ciphertext
      in (\<lparr>data = combined, iv = iv\<rparr>, ent'))"

text \<open>
  \<open>decrypt\<close> returns its result together with the calls it made to the cipher, in
  order, so that a path that returns before the cipher is visible.
\<close>

datatype subtle_call = SubtleDecrypt CryptoKey bytes bytes

definition decrypt :: "platform \<Rightarrow> bytes \<Rightarrow> EncryptionKey \<Rightarrow> (error + bytes) \<times> subtle_call list" where
  "decrypt pf encryptedData key =
     (let dataArray = encryptedData in
      if length dataArray < IV_LENGTH + 16 then (Inl InvalidEnvelope, [])
      else
        let iv = take IV_LENGTH dataArray;
            ciphertext = drop IV_LENGTH dataArray
        in (case aes_gcm_decrypt pf key iv ciphertext of
              None \<Rightarrow> Inl AuthenticationFailure
            | Some plaintext \<Rightarrow> Inr plaintext,
            [SubtleDecrypt key iv ciphertext]))"

definition exportKey :: "platform \<Rightarrow> EncryptionKey \<Rightarrow> string" where
  "exportKey pf key = (let raw = subtle_exportKey_raw key in toBase64 pf raw)"

definition importKey :: "platform \<Rightarrow> string \<Rightarrow> error + EncryptionKey" where
  "importKey pf keyString =
     (let raw = fromBase64 pf keyString in
      if length raw \<noteq> 32 then Inl InvalidKeyLength
      else subtle_importKey_raw raw)"

text \<open>
  \<open>deriveKey\<close> returns its result, the calls it made to the platform in order, and the
  random tape: it is handed the tape as the operations that draw from it are, and it
  draws nothing.
\<close>

datatype kdf_call =
    SubtleImportPassword bytes
  | SubtleDeriveKey Pbkdf2Params bytes nat

definition deriveKey ::
  "platform \<Rightarrow> string \<Rightarrow> bytes \<Rightarrow> entropy \<Rightarrow> (error + EncryptionKey) \<times> kdf_call list \<times> entropy" where
  "deriveKey pf password salt ent =
     (let passwordKey = utf8_encode pf password;
          params = \<lparr>kdf_salt = salt, kdf_iterations = 100000, kdf_hash = SHA_256\<rparr>
      in (subtle_deriveKey pf params passwordKey ALGORITHM_length,
          [SubtleImportPassword passwordKey,
           SubtleDeriveKey params passwordKey ALGORITHM_length],
          ent))"

definition generateSalt :: "entropy \<Rightarrow> bytes \<times> entropy" where
  "generateSalt ent = getRandomValues 16 ent"

text \<open>The standalone functions of the module, exported at the package root.\<close>

definition standalone_exportKey :: "platform \<Rightarrow> EncryptionKey \<Rightarrow> string" where
  "standalone_exportKey pf key = (let raw = subtle_exportKey_raw key in toBase64 pf raw)"

definition standalone_importKey :: "platform \<Rightarrow> string \<Rightarrow> error + EncryptionKey" where
  "standalone_importKey pf keyString =
     (let raw = fromBase64 pf keyString in subtle_importKey_raw raw)"

section \<open>HelixAuth: token expiry\<close>

text \<open>
  \<open>parseToken\<close> splits the token at the dots and returns what \<open>JSON.parse\<close> makes of
  the middle part. The parsing (of the base64url text) is a parameter: \<open>None\<close> where
  \<open>JSON.parse\<close> throws, \<open>JsonNull\<close> where it returns \<open>null\<close>, and otherwise
  \<open>JsonValue x\<close>, with \<open>x\<close> the \<open>exp\<close> of the parsed value as a number: a count of
  seconds, or \<open>JsNaN\<close> where the value has no numeric \<open>exp\<close>.

  \<open>isTokenExpired\<close> compares \<open>exp * 1000\<close> with \<open>Date.now()\<close>, in milliseconds.
  Everything thrown inside its \<open>try\<close>, by \<open>parseToken\<close> or by taking \<open>exp\<close> out of
  \<open>null\<close>, makes the token expired; a comparison with \<open>NaN\<close> is false, so a token
  without a numeric \<open>exp\<close> is never expired.
\<close>

datatype js_number = JsNumber int | JsNaN

datatype token_payload = JsonNull | JsonValue js_number

fun split_dot :: "string \<Rightarrow> string list" where
  "split_dot [] = [[]]"
| "split_dot (c # cs) =
     (if c = CHR ''.'' then [] # split_dot cs
      else (case split_dot cs of [] \<Rightarrow> [[c]] | part # parts \<Rightarrow> (c # part) # parts))"

definition parseToken :: "(string \<Rightarrow> token_payload option) \<Rightarrow> string \<Rightarrow> error + token_payload" where
  "parseToken parse token =
     (let parts = split_dot token in
      if length parts \<noteq> 3 then Inl InvalidTokenFormat
      else (case parse (parts ! 1) of
              None \<Rightarrow> Inl MalformedPayload
            | Some payload \<Rightarrow> Inr payload))"

definition isTokenExpired :: "(string \<Rightarrow> token_payload option) \<Rightarrow> int \<Rightarrow> string \<Rightarrow> bool" where
  "isTokenExpired parse now token =
     (case parseToken parse token of
        Inl e \<Rightarrow> True
      | Inr JsonNull \<Rightarrow> True
      | Inr (JsonValue JsNaN) \<Rightarrow> False
      | Inr (JsonValue (JsNumber seconds)) \<Rightarrow> now \<ge> seconds * 1000)"

section \<open>HelixFiles: the transport and the registry\<close>

text \<open>
  \<open>uploadToArweave\<close> and \<open>create\<close> go to the network. Their outcome is a parameter: the
  message of the \<open>Error\<close> they throw, or what they return. \<open>create\<close> sends the client's
  token, so its outcome may depend on it.
\<close>

record WalletAdapter =
  publicKey :: "string option"

record CreateFileParams =
  transactionId :: string
  encryptedName :: "string option"
  mimeType :: string
  fileSize :: nat
  isEncrypted :: bool

record FileRecord =
  record_id :: string
  record_params :: CreateFileParams
  createdAt :: string

record HelixFiles =
  uploadToArweave :: "bytes \<Rightarrow> string \<Rightarrow> WalletAdapter option \<Rightarrow> string + string"
  create :: "string option \<Rightarrow> CreateFileParams \<Rightarrow> string + FileRecord"

datatype files_call =
    UploadToArweave bytes string "WalletAdapter option"
  | Create CreateFileParams

section \<open>HelixClient\<close>

record HelixClient =
  wallet :: "WalletAdapter option"
  authToken :: "string option"

record UploadOptions =
  opt_name :: string
  opt_mimeType :: string
  opt_encrypt :: "bool option"

record UploadResult =
  res_transactionId :: string
  res_encryptionKey :: "string option"
  res_arweaveUrl :: string

definition isAuthenticated :: "HelixClient \<Rightarrow> bool" where
  "isAuthenticated c = (authToken c \<noteq> None)"

definition disconnect :: "HelixClient \<Rightarrow> HelixClient" where
  "disconnect c = c\<lparr>wallet := None, authToken := None\<rparr>"

text \<open>
  \<open>uploadFile\<close> returns its result, the calls it made on \<open>this.files\<close> in order, and the
  rest of the random tape. \<open>options.encrypt !== false\<close> holds for \<open>undefined\<close> and for
  \<open>true\<close>; \<open>if (encryptionKey)\<close> holds for a string that is not empty.
\<close>

definition uploadFile ::
  "platform \<Rightarrow> HelixFiles \<Rightarrow> HelixClient \<Rightarrow> bytes \<Rightarrow> UploadOptions \<Rightarrow> entropy \<Rightarrow>
     (error + UploadResult) \<times> files_call list \<times> entropy" where
  "uploadFile pf files c file options ent =
     (if \<not> isAuthenticated c then (Inl NotAuthenticated, [], ent)
      else
        let (dataToUpload, encryptionKey, ent1) =
              (if opt_encrypt options \<noteq> Some False then
                 (let (key, e1) = generateKey ent;
                      (encrypted, e2) = encrypt pf file key e1
                  in (data encrypted, Some (exportKey pf key), e2))
               else (file, None, ent));
            upload = UploadToArweave dataToUpload (opt_mimeType options) (wallet c)
        in case uploadToArweave files dataToUpload (opt_mimeType options) (wallet c) of
             Inl msg \<Rightarrow> (Inl (TransportFailure msg), [upload], ent1)
           | Inr txId \<Rightarrow>
               (case (case encryptionKey of
                        None \<Rightarrow> Inr (None, ent1)
                      | Some keyString \<Rightarrow>
                          if keyString = [] then Inr (None, ent1)
                          else (case importKey pf keyString of
                                  Inl e \<Rightarrow> Inl e
                                | Inr nameKey \<Rightarrow>
                                    let nameBytes = utf8_encode pf (opt_name options);
                                        (encryptedNameData, e3) = encrypt pf nameBytes nameKey ent1
                                    in Inr (Some (toBase64 pf (data encryptedNameData)), e3))) of
                  Inl e \<Rightarrow> (Inl e, [upload], ent1)
                | Inr (encName, ent2) \<Rightarrow>
                    let params = \<lparr>transactionId = txId, encryptedName = encName,
                                   mimeType = opt_mimeType options, fileSize = length file,
                                   isEncrypted = (opt_encrypt options \<noteq> Some False)\<rparr>
                    in (case create files (authToken c) params of
                          Inl msg \<Rightarrow> (Inl (RegistryFailure msg), [upload, Create params], ent2)
                        | Inr fileRecord \<Rightarrow>
                            (Inr \<lparr>res_transactionId = txId, res_encryptionKey = encryptionKey,
                                  res_arweaveUrl = ''https://arweave.net/'' @ txId\<rparr>,
                             [upload, Create params], ent2))))"

section \<open>What the model asks of the cipher\<close>

text \<open>
  The properties of AES-GCM the envelope relies on, each for one key, IV and plaintext:
  decryption inverts encryption; the output is the ciphertext, as long as the plaintext,
  followed by a 16-byte tag; and the cipher rejects its output with one bit flipped.
  \<open>flip_envelope_bit e n\<close> flips bit \<open>n mod 8\<close> of byte \<open>n div 8\<close> of \<open>e\<close>.
\<close>

definition gcm_roundtrip :: "platform \<Rightarrow> CryptoKey \<Rightarrow> bytes \<Rightarrow> bytes \<Rightarrow> bool" where
  "gcm_roundtrip pf key nonce b \<longleftrightarrow>
     aes_gcm_decrypt pf key nonce (aes_gcm_encrypt pf key nonce b) = Some b"

definition gcm_tag_length :: "platform \<Rightarrow> CryptoKey \<Rightarrow> bytes \<Rightarrow> bytes \<Rightarrow> bool" where
  "gcm_tag_length pf key nonce b \<longleftrightarrow> length (aes_gcm_encrypt pf key nonce b) = length b + 16"

definition flip_envelope_bit :: "bytes \<Rightarrow> nat \<Rightarrow> bytes" where
  "flip_envelope_bit e n = e[n div 8 := flip_bit (n mod 8) (e ! (n div 8))]"

definition gcm_rejects_bit_flips :: "platform \<Rightarrow> CryptoKey \<Rightarrow> bytes \<Rightarrow> bytes \<Rightarrow> bool" where
  "gcm_rejects_bit_flips pf key nonce b \<longleftrightarrow>
     (\<forall>n. n < 8 * length (aes_gcm_encrypt pf key nonce b) \<longrightarrow>
        aes_gcm_decrypt pf key nonce (flip_envelope_bit (aes_gcm_encrypt pf key nonce b) n) = None)"

section \<open>An executable platform\<close>

text \<open>
  A small platform on which every function above runs: standard base64, ASCII text, and
  a one-byte XOR stream with a 16-byte checksum in place of the cipher. It stands for no
  real cipher; it shows that what the theorems below assume of the platform can be met
  together, and it is the platform of the worked examples.
\<close>

definition b64_alphabet :: string where
  "b64_alphabet = ''ABCDEFGHIJKLMNOPQRSTUVWXYZabcdefghijklmnopqrstuvwxyz0123456789+/''"

definition b64_char :: "nat \<Rightarrow> char" where
  "b64_char n = b64_alphabet ! (n mod 64)"

fun index_of :: "'a \<Rightarrow> 'a list \<Rightarrow> nat option" where
  "index_of x [] = None"
| "index_of x (y # ys) = (if x = y then Some 0 else map_option Suc (index_of x ys))"

fun b64_encode :: "bytes \<Rightarrow> string" where
  "b64_encode (a # b # c # rest) =
     [b64_char (unat a div 4),
      b64_char ((unat a mod 4) * 16 + unat b div 16),
      b64_char ((unat b mod 16) * 4 + unat c div 64),
      b64_char (unat c mod 64)] @ b64_encode rest"
| "b64_encode [a, b] =
     [b64_char (unat a div 4),
      b64_char ((unat a mod 4) * 16 + unat b div 16),
      b64_char ((unat b mod 16) * 4),
      CHR ''='']"
| "b64_encode [a] =
     [b64_char (unat a div 4), b64_char ((unat a mod 4) * 16), CHR ''='', CHR ''='']"
| "b64_encode [] = []"

fun b64_sextets :: "nat list \<Rightarrow> bytes" where
  "b64_sextets (p # q # r # s # rest) =
     [of_nat (p * 4 + q div 16), of_nat ((q mod 16) * 16 + r div 4), of_nat ((r mod 4) * 64 + s)]
       @ b64_sextets rest"
| "b64_sextets [p, q, r] = [of_nat (p * 4 + q div 16), of_nat ((q mod 16) * 16 + r div 4)]"
| "b64_sextets [p, q] = [of_nat (p * 4 + q div 16)]"
| "b64_sextets [p] = []"
| "b64_sextets [] = []"

definition b64_decode :: "string \<Rightarrow> bytes" where
  "b64_decode s = b64_sextets (List.map_filter (\<lambda>c. index_of c b64_alphabet) s)"

definition ascii_encode :: "string \<Rightarrow> bytes" where
  "ascii_encode s = map (\<lambda>c. of_nat (of_char c)) s"

definition xor_mask :: "CryptoKey \<Rightarrow> bytes \<Rightarrow> byte" where
  "xor_mask key nonce = fold (XOR) (key_data key @ nonce) 0"

definition xor_tag :: "byte \<Rightarrow> bytes \<Rightarrow> bytes" where
  "xor_tag m ct = fold (XOR) ct m # replicate 15 m"

definition xor_encrypt :: "CryptoKey \<Rightarrow> bytes \<Rightarrow> bytes \<Rightarrow> bytes" where
  "xor_encrypt key nonce dat =
     (let m = xor_mask key nonce; ct = map (\<lambda>x. x XOR m) dat in ct @ xor_tag m ct)"

definition xor_decrypt :: "CryptoKey \<Rightarrow> bytes \<Rightarrow> bytes \<Rightarrow> bytes option" where
  "xor_decrypt key nonce c =
     (if length c < 16 then None
      else
        let m = xor_mask key nonce;
            ct = take (length c - 16) c;
            t = drop (length c - 16) c
        in if t = xor_tag m ct then Some (map (\<lambda>x. x XOR m) ct) else None)"

definition xor_kdf :: "Pbkdf2Params \<Rightarrow> bytes \<Rightarrow> nat \<Rightarrow> bytes" where
  "xor_kdf params password bits =
     replicate (bits div 8)
       (fold (XOR) (password @ kdf_salt params) (of_nat (kdf_iterations params)))"

definition xor_platform :: platform where
  "xor_platform =
     \<lparr>aes_gcm_encrypt = xor_encrypt, aes_gcm_decrypt = xor_decrypt, pbkdf2_bits = xor_kdf,
      toBase64 = b64_encode, fromBase64 = b64_decode, utf8_encode = ascii_encode\<rparr>"

definition example_entropy :: entropy where
  "example_entropy = (\<lambda>i. of_nat (7 * i + 1))"

text \<open>
  A worked upload: a transport that stores every payload under \<open>abc123\<close>, a registry that
  files every record as \<open>f1\<close>, a client that holds a wallet and a token, and a parser
  that reads in every token payload an \<open>exp\<close> of 1700000000, a time in 2023.
\<close>

definition example_files :: HelixFiles where
  "example_files =
     \<lparr>uploadToArweave = (\<lambda>payload mime w. Inr ''abc123''),
      create = (\<lambda>token params.
        Inr \<lparr>record_id = ''f1'', record_params = params, createdAt = ''2026-01-01''\<rparr>)\<rparr>"

definition example_client :: HelixClient where
  "example_client =
     \<lparr>wallet = Some \<lparr>publicKey = Some ''wallet''\<rparr>,
      authToken = Some ''header.payload.signature''\<rparr>"

definition example_decode :: "string \<Rightarrow> token_payload option" where
  "example_decode payload = Some (JsonValue (JsNumber 1700000000))"

section \<open>Properties\<close>

lemma length_getRandomValues: "length (fst (getRandomValues n ent)) = n"
  by (simp add: getRandomValues_def)

subsection \<open>Envelope minimum length\<close>

text \<open>
  C5. For every input buffer shorter than 28 bytes and every key, \<open>decrypt\<close> fails
  with \<open>InvalidEnvelope\<close>, and it makes no call to the cipher: the list of cipher calls
  is empty, on every platform.
\<close>

theorem decrypt_short_InvalidEnvelope:
  "length encryptedData < 28 \<Longrightarrow> decrypt pf encryptedData key = (Inl InvalidEnvelope, [])"
  by (simp add: decrypt_def IV_LENGTH_def)

theorem decrypt_short_InvalidEnvelope_witness:
  "decrypt xor_platform [1, 2, 3] (CryptoKey (replicate 32 9)) = (Inl InvalidEnvelope, [])"
  using decrypt_short_InvalidEnvelope [of "[1, 2, 3]" xor_platform "CryptoKey (replicate 32 9)"]
  by simp

subsection \<open>The executable platform meets what is asked of the platform\<close>

lemma flip_bit_neq:
  assumes "n < 8"
  shows "flip_bit n (x :: byte) \<noteq> x"
proof
  assume eq: "flip_bit n x = x"
  have "bit (flip_bit n x) n \<longleftrightarrow> \<not> bit x n"
    using assms by (simp add: bit_flip_bit_iff)
  then show False
    using eq by simp
qed

lemma xor_left_cancel_byte:
  assumes "(f :: byte) XOR d = f"
  shows "d = 0"
proof -
  have "f XOR (f XOR d) = d"
    by (simp flip: xor.assoc)
  then show ?thesis
    using assms by simp
qed

lemma xor_eq_zero:
  assumes "(a :: byte) XOR y = 0"
  shows "a = y"
proof -
  have "a XOR (a XOR y) = y"
    by (simp flip: xor.assoc)
  then show ?thesis
    using assms by simp
qed

lemma xor_twice: "(x XOR m) XOR m = (x :: byte)"
  by (simp add: xor.assoc)

lemma fold_xor_acc: "fold (XOR) xs (m XOR y) = fold (XOR) xs m XOR (y :: byte)"
proof (induction xs arbitrary: m)
  case Nil
  show ?case by simp
next
  case (Cons x xs)
  have "x XOR (m XOR y) = (x XOR m) XOR y"
    by (simp add: ac_simps)
  then show ?case
    using Cons.IH [of "x XOR m"] by simp
qed

lemma fold_xor_update:
  "i < length xs \<Longrightarrow> fold (XOR) (xs[i := y]) (m :: byte) = fold (XOR) xs m XOR (xs ! i) XOR y"
proof (induction xs arbitrary: i m)
  case Nil
  then show ?case by simp
next
  case (Cons x xs)
  show ?case
  proof (cases i)
    case 0
    have a: "fold (XOR) xs (y XOR m) = fold (XOR) xs m XOR y"
      using fold_xor_acc [of xs m y] by (simp add: ac_simps)
    have b: "fold (XOR) xs (x XOR m) = fold (XOR) xs m XOR x"
      using fold_xor_acc [of xs m x] by (simp add: ac_simps)
    show ?thesis
      using 0 a b by (simp add: ac_simps)
  next
    case (Suc j)
    then show ?thesis
      using Cons.IH [of j "x XOR m"] Cons.prems by simp
  qed
qed

lemma xor_platform_roundtrip: "gcm_roundtrip xor_platform key nonce b"
  by (simp add: gcm_roundtrip_def xor_platform_def xor_encrypt_def xor_decrypt_def Let_def
      xor_tag_def o_def xor_twice)

lemma xor_platform_tag_length: "gcm_tag_length xor_platform key nonce b"
  by (simp add: gcm_tag_length_def xor_platform_def xor_encrypt_def Let_def xor_tag_def)

lemma xor_decrypt_flip:
  assumes "n < 8 * length (xor_encrypt key nonce b)"
  shows "xor_decrypt key nonce (flip_envelope_bit (xor_encrypt key nonce b) n) = None"
proof -
  let ?m = "xor_mask key nonce"
  let ?ct = "map (\<lambda>x. x XOR ?m) b"
  let ?t = "xor_tag ?m ?ct"
  let ?i = "n div 8"
  have c: "xor_encrypt key nonce b = ?ct @ ?t"
    by (simp add: xor_encrypt_def Let_def)
  have lt: "length ?t = 16"
    by (simp add: xor_tag_def)
  have i: "?i < length ?ct + 16"
    using assms c lt by (simp add: xor_encrypt_def Let_def)
  have j: "n mod 8 < 8"
    by simp
  show ?thesis
  proof (cases "?i < length ?ct")
    case True
    let ?y = "flip_bit (n mod 8) (?ct ! ?i)"
    have e: "flip_envelope_bit (?ct @ ?t) n = ?ct[?i := ?y] @ ?t"
      using True by (simp add: flip_envelope_bit_def list_update_append nth_append)
    have "fold (XOR) (?ct[?i := ?y]) ?m = fold (XOR) ?ct ?m XOR (?ct ! ?i) XOR ?y"
      using True by (rule fold_xor_update)
    moreover have "(?ct ! ?i) XOR ?y \<noteq> 0"
      using flip_bit_neq [OF j, of "?ct ! ?i"] xor_eq_zero [of "?ct ! ?i" ?y] by auto
    ultimately have "fold (XOR) (?ct[?i := ?y]) ?m \<noteq> fold (XOR) ?ct ?m"
      using xor_left_cancel_byte [of "fold (XOR) ?ct ?m" "(?ct ! ?i) XOR ?y"] by auto
    then have "?t \<noteq> xor_tag ?m (?ct[?i := ?y])"
      by (simp add: xor_tag_def)
    then show ?thesis
      using lt by (simp add: c e xor_decrypt_def Let_def)
  next
    case False
    let ?k = "?i - length ?ct"
    let ?y = "flip_bit (n mod 8) (?t ! ?k)"
    have k: "?k < 16"
      using False i by simp
    have e: "flip_envelope_bit (?ct @ ?t) n = ?ct @ ?t[?k := ?y]"
      using False by (simp add: flip_envelope_bit_def list_update_append nth_append)
    have "?t[?k := ?y] ! ?k \<noteq> ?t ! ?k"
      using k lt flip_bit_neq [OF j, of "?t ! ?k"] by simp
    then have "?t[?k := ?y] \<noteq> ?t"
      by auto
    then show ?thesis
      using lt by (simp add: c e xor_decrypt_def Let_def)
  qed
qed

lemma xor_platform_rejects_bit_flips: "gcm_rejects_bit_flips xor_platform key nonce b"
  using xor_decrypt_flip by (simp add: gcm_rejects_bit_flips_def xor_platform_def)

lemma index_of_nth:
  "distinct xs \<Longrightarrow> n < length xs \<Longrightarrow> index_of (xs ! n) xs = Some n"
proof (induction xs arbitrary: n)
  case Nil
  then show ?case by simp
next
  case (Cons x xs)
  show ?case
  proof (cases n)
    case 0
    then show ?thesis by simp
  next
    case (Suc m)
    with Cons.prems have m: "m < length xs" and d: "distinct xs" and x: "x \<notin> set xs"
      by simp_all
    from m x have "xs ! m \<noteq> x"
      by (metis nth_mem)
    with Cons.IH [OF d m] Suc show ?thesis
      by simp
  qed
qed

lemma b64_alphabet_distinct: "distinct b64_alphabet"
  by (simp add: b64_alphabet_def)

lemma b64_alphabet_length: "length b64_alphabet = 64"
  by (simp add: b64_alphabet_def)

lemma b64_index_char: "n < 64 \<Longrightarrow> index_of (b64_char n) b64_alphabet = Some n"
  unfolding b64_char_def
  using index_of_nth [OF b64_alphabet_distinct, of n] by (simp add: b64_alphabet_length)

lemma b64_index_pad: "index_of CHR ''='' b64_alphabet = None"
  by (simp add: b64_alphabet_def)

lemma byte_lt: "unat (a :: byte) < 256"
proof -
  have "unat a < 2 ^ LENGTH(8)"
    by (rule unsigned_less)
  then show ?thesis
    by simp
qed

text \<open>The arithmetic of splitting three bytes into four sextets and joining them again.\<close>

lemma sextet_bound_hi: "x < 256 \<Longrightarrow> x div 4 < (64::nat)"
  by simp

lemma sextet_bound_mid1: "y < 256 \<Longrightarrow> (x mod 4) * 16 + y div 16 < (64::nat)"
proof -
  assume "y < 256"
  then have "y div 16 < 16" by simp
  moreover have "x mod 4 < 4" by simp
  then have "x mod 4 \<le> 3" by simp
  then have "(x mod 4) * 16 \<le> 48" by simp
  ultimately show ?thesis by linarith
qed

lemma sextet_bound_mid2: "z < 256 \<Longrightarrow> (y mod 16) * 4 + z div 64 < (64::nat)"
proof -
  assume "z < 256"
  then have "z div 64 < 4" by simp
  moreover have "y mod 16 < 16" by simp
  then have "y mod 16 \<le> 15" by simp
  then have "(y mod 16) * 4 \<le> 60" by simp
  ultimately show ?thesis by linarith
qed

lemma sextet_bound_pad1: "(x mod 4) * 16 < (64::nat)"
  using sextet_bound_mid1 [of 0 x] by simp

lemma sextet_bound_pad2: "(y mod 16) * 4 < (64::nat)"
  using sextet_bound_mid2 [of 0 y] by simp

lemma sextet_join1:
  "y < 256 \<Longrightarrow> (x div 4) * 4 + ((x mod 4) * 16 + y div 16) div 16 = (x::nat)"
proof -
  assume "y < 256"
  then have "y div 16 < 16" by simp
  then have "((x mod 4) * 16 + y div 16) div 16 = x mod 4"
    by simp
  then show ?thesis by simp
qed

lemma sextet_join2:
  "y < 256 \<Longrightarrow> z < 256 \<Longrightarrow>
     (((x mod 4) * 16 + y div 16) mod 16) * 16 + ((y mod 16) * 4 + z div 64) div 4 = (y::nat)"
proof -
  assume "z < 256"
  then have "z div 64 < 4" by simp
  then have a: "((y mod 16) * 4 + z div 64) div 4 = y mod 16"
    by simp
  have b: "((x mod 4) * 16 + y div 16) mod 16 = (y div 16) mod 16"
    by simp
  assume "y < 256"
  then have "y div 16 < 16" by simp
  then have "(y div 16) mod 16 = y div 16" by simp
  with a b show ?thesis by simp
qed

lemma sextet_join3:
  "z < 256 \<Longrightarrow> (((y mod 16) * 4 + z div 64) mod 4) * 64 + z mod 64 = (z::nat)"
proof -
  assume "z < 256"
  then have "z div 64 < 4" by simp
  then have "((y mod 16) * 4 + z div 64) mod 4 = z div 64"
    by simp
  then show ?thesis by simp
qed

text \<open>Standard base64 decodes whatever it encoded.\<close>

lemma b64_roundtrip: "b64_decode (b64_encode bs) = bs"
proof (induction bs rule: b64_encode.induct)
  case (1 a b c rest)
  let ?f = "List.map_filter (\<lambda>c. index_of c b64_alphabet)"
  have n1: "unat a div 4 < 64"
    by (rule sextet_bound_hi [OF byte_lt])
  have n2: "(unat a mod 4) * 16 + unat b div 16 < 64"
    by (rule sextet_bound_mid1 [OF byte_lt])
  have n3: "(unat b mod 16) * 4 + unat c div 64 < 64"
    by (rule sextet_bound_mid2 [OF byte_lt])
  have n4: "unat c mod 64 < 64"
    by simp
  have f: "?f (b64_encode (a # b # c # rest)) =
      unat a div 4 # ((unat a mod 4) * 16 + unat b div 16)
        # ((unat b mod 16) * 4 + unat c div 64) # unat c mod 64 # ?f (b64_encode rest)"
    by (simp add: b64_index_char [OF n1] b64_index_char [OF n2] b64_index_char [OF n3]
        b64_index_char [OF n4])
  have "b64_decode (b64_encode (a # b # c # rest)) =
      [of_nat (unat a), of_nat (unat b), of_nat (unat c)] @ b64_decode (b64_encode rest)"
    unfolding b64_decode_def f
    by (simp only: b64_sextets.simps sextet_join1 [OF byte_lt]
        sextet_join2 [OF byte_lt byte_lt] sextet_join3 [OF byte_lt])
  then show ?case
    using "1.IH" by simp
next
  case (2 a b)
  let ?f = "List.map_filter (\<lambda>c. index_of c b64_alphabet)"
  have n1: "unat a div 4 < 64"
    by (rule sextet_bound_hi [OF byte_lt])
  have n2: "(unat a mod 4) * 16 + unat b div 16 < 64"
    by (rule sextet_bound_mid1 [OF byte_lt])
  have n3: "(unat b mod 16) * 4 < 64"
    by (rule sextet_bound_pad2)
  have f: "?f (b64_encode [a, b]) =
      [unat a div 4, (unat a mod 4) * 16 + unat b div 16, (unat b mod 16) * 4]"
    by (simp add: b64_index_char [OF n1] b64_index_char [OF n2] b64_index_char [OF n3]
        b64_index_pad)
  have "(((unat a mod 4) * 16 + unat b div 16) mod 16) * 16
      + ((unat b mod 16) * 4 + 0 div 64) div 4 = unat b"
    by (rule sextet_join2 [OF byte_lt]) simp
  then have r: "(((unat a mod 4) * 16 + unat b div 16) mod 16) * 16
      + ((unat b mod 16) * 4) div 4 = unat b"
    by simp
  have "b64_decode (b64_encode [a, b]) = [of_nat (unat a), of_nat (unat b)]"
    unfolding b64_decode_def f
    by (simp only: b64_sextets.simps sextet_join1 [OF byte_lt] r)
  then show ?case
    by simp
next
  case (3 a)
  let ?f = "List.map_filter (\<lambda>c. index_of c b64_alphabet)"
  have n1: "unat a div 4 < 64"
    by (rule sextet_bound_hi [OF byte_lt])
  have n2: "(unat a mod 4) * 16 < 64"
    by (rule sextet_bound_pad1)
  have f: "?f (b64_encode [a]) = [unat a div 4, (unat a mod 4) * 16]"
    by (simp add: b64_index_char [OF n1] b64_index_char [OF n2] b64_index_pad)
  have "(unat a div 4) * 4 + ((unat a mod 4) * 16 + 0 div 16) div 16 = unat a"
    by (rule sextet_join1) simp
  then have r: "(unat a div 4) * 4 + ((unat a mod 4) * 16) div 16 = unat a"
    by simp
  have "b64_decode (b64_encode [a]) = [of_nat (unat a)]"
    unfolding b64_decode_def f
    by (simp only: b64_sextets.simps r)
  then show ?case
    by simp
next
  case 4
  show ?case
    by (simp add: b64_decode_def)
qed

lemma xor_platform_codec: "fromBase64 xor_platform (toBase64 xor_platform bs) = bs"
  by (simp add: xor_platform_def b64_roundtrip)

lemma b64_encode_nonempty: "bs \<noteq> [] \<Longrightarrow> b64_encode bs \<noteq> []"
  by (induction bs rule: b64_encode.induct) simp_all

subsection \<open>The envelope\<close>

lemma encrypt_data:
  "data (fst (encrypt pf b key ent)) =
     fst (getRandomValues IV_LENGTH ent)
       @ aes_gcm_encrypt pf key (fst (getRandomValues IV_LENGTH ent)) b"
  by (simp add: encrypt_def Let_def split_beta)

lemma encrypt_iv: "iv (fst (encrypt pf b key ent)) = fst (getRandomValues IV_LENGTH ent)"
  by (simp add: encrypt_def Let_def split_beta)

lemma decrypt_long:
  "28 \<le> length e \<Longrightarrow> decrypt pf e key =
     (case aes_gcm_decrypt pf key (take 12 e) (drop 12 e) of
        None \<Rightarrow> Inl AuthenticationFailure | Some p \<Rightarrow> Inr p,
      [SubtleDecrypt key (take 12 e) (drop 12 e)])"
  by (simp add: decrypt_def IV_LENGTH_def Let_def)

text \<open>
  C1. For every byte buffer \<open>b\<close> and key, decrypting the envelope that \<open>encrypt\<close> made
  of \<open>b\<close> under the same key returns exactly \<open>b\<close>, whatever the random source gave
  for the IV. It rests on the cipher of the platform: it inverts itself and appends its
  16-byte tag, for this key and plaintext under every 12-byte IV.
\<close>

theorem decrypt_encrypt_roundtrip:
  assumes rt: "\<forall>nonce. length nonce = 12 \<longrightarrow> gcm_roundtrip pf key nonce b"
      and tl: "\<forall>nonce. length nonce = 12 \<longrightarrow> gcm_tag_length pf key nonce b"
  shows "fst (decrypt pf (data (fst (encrypt pf b key ent))) key) = Inr b"
proof -
  let ?nonce = "fst (getRandomValues IV_LENGTH ent)"
  let ?c = "aes_gcm_encrypt pf key ?nonce b"
  have n: "length ?nonce = 12"
    by (simp add: length_getRandomValues IV_LENGTH_def)
  have c: "length ?c = length b + 16"
    using tl n by (simp add: gcm_tag_length_def)
  have r: "aes_gcm_decrypt pf key ?nonce ?c = Some b"
    using rt n by (simp add: gcm_roundtrip_def)
  have "28 \<le> length (?nonce @ ?c)"
    using n c by simp
  then have "decrypt pf (?nonce @ ?c) key =
      (case aes_gcm_decrypt pf key (take 12 (?nonce @ ?c)) (drop 12 (?nonce @ ?c)) of
         None \<Rightarrow> Inl AuthenticationFailure | Some p \<Rightarrow> Inr p,
       [SubtleDecrypt key (take 12 (?nonce @ ?c)) (drop 12 (?nonce @ ?c))])"
    by (rule decrypt_long)
  then show ?thesis
    using n r by (simp add: encrypt_data)
qed

theorem decrypt_encrypt_roundtrip_witness:
  "fst (decrypt xor_platform
          (data (fst (encrypt xor_platform [104, 101, 108, 108, 111]
                        (CryptoKey (replicate 32 9)) example_entropy)))
          (CryptoKey (replicate 32 9))) = Inr [104, 101, 108, 108, 111]"
  using decrypt_encrypt_roundtrip [of xor_platform "CryptoKey (replicate 32 9)"
      "[104, 101, 108, 108, 111]" example_entropy]
  by (simp add: xor_platform_roundtrip xor_platform_tag_length)

text \<open>
  C2. The envelope \<open>encrypt\<close> returns is the 12-byte IV drawn for that call, followed by
  the cipher's output: the ciphertext, as long as the plaintext, and the 16-byte tag. Its
  length is the plaintext's plus 28. \<open>decrypt\<close> reads the same layout back: on every
  buffer of at least 28 bytes it calls the cipher once, with the first 12 bytes as the IV
  and the rest as ciphertext and tag; on the envelope of \<open>encrypt\<close> these are the IV and
  the output of that call.
\<close>

theorem envelope_layout:
  assumes tl: "\<forall>nonce. length nonce = 12 \<longrightarrow> gcm_tag_length pf key nonce b"
  shows "(let r = fst (encrypt pf b key ent);
              nonce = fst (getRandomValues 12 ent);
              c = aes_gcm_encrypt pf key nonce b
          in iv r = nonce \<and> length nonce = 12 \<and> data r = nonce @ c \<and>
             length (take (length b) c) = length b \<and> length (drop (length b) c) = 16 \<and>
             length (data r) = length b + 28 \<and>
             snd (decrypt pf (data r) key) = [SubtleDecrypt key nonce c]) \<and>
         (\<forall>e. 28 \<le> length e \<longrightarrow>
            decrypt pf e key =
              (case aes_gcm_decrypt pf key (take 12 e) (drop 12 e) of
                 None \<Rightarrow> Inl AuthenticationFailure | Some p \<Rightarrow> Inr p,
               [SubtleDecrypt key (take 12 e) (drop 12 e)]))"
proof -
  let ?nonce = "fst (getRandomValues 12 ent)"
  let ?c = "aes_gcm_encrypt pf key ?nonce b"
  have n: "length ?nonce = 12"
    by (simp add: length_getRandomValues)
  have c: "length ?c = length b + 16"
    using tl n by (simp add: gcm_tag_length_def)
  have d: "data (fst (encrypt pf b key ent)) = ?nonce @ ?c"
    by (simp add: encrypt_data IV_LENGTH_def)
  have "28 \<le> length (?nonce @ ?c)"
    using n c by simp
  then have "snd (decrypt pf (?nonce @ ?c) key) = [SubtleDecrypt key ?nonce ?c]"
    using n by (simp add: decrypt_long)
  then show ?thesis
    using n c d by (simp add: Let_def encrypt_iv IV_LENGTH_def decrypt_long)
qed

theorem envelope_layout_witness:
  "length (data (fst (encrypt xor_platform [104, 101, 108, 108, 111]
                        (CryptoKey (replicate 32 9)) example_entropy))) = 33 \<and>
   snd (decrypt xor_platform
          (data (fst (encrypt xor_platform [104, 101, 108, 108, 111]
                        (CryptoKey (replicate 32 9)) example_entropy)))
          (CryptoKey (replicate 32 9)))
     = [SubtleDecrypt (CryptoKey (replicate 32 9)) (fst (getRandomValues 12 example_entropy))
          (aes_gcm_encrypt xor_platform (CryptoKey (replicate 32 9))
             (fst (getRandomValues 12 example_entropy)) [104, 101, 108, 108, 111])]"
proof -
  have h: "\<forall>nonce. length nonce = 12 \<longrightarrow>
      gcm_tag_length xor_platform (CryptoKey (replicate 32 9)) nonce [104, 101, 108, 108, 111]"
    by (simp add: xor_platform_tag_length)
  have "length (data (fst (encrypt xor_platform [104, 101, 108, 108, 111]
                        (CryptoKey (replicate 32 9)) example_entropy)))
          = length [104, 101, 108, 108, 111 :: byte] + 28 \<and>
        snd (decrypt xor_platform
          (data (fst (encrypt xor_platform [104, 101, 108, 108, 111]
                        (CryptoKey (replicate 32 9)) example_entropy)))
          (CryptoKey (replicate 32 9)))
     = [SubtleDecrypt (CryptoKey (replicate 32 9)) (fst (getRandomValues 12 example_entropy))
          (aes_gcm_encrypt xor_platform (CryptoKey (replicate 32 9))
             (fst (getRandomValues 12 example_entropy)) [104, 101, 108, 108, 111])]"
    using envelope_layout [OF h, of example_entropy, unfolded Let_def] by blast
  then show ?thesis
    by simp
qed

text \<open>
  C4. For every plaintext \<open>b\<close>, key and envelope \<open>encrypt\<close> made of \<open>b\<close>, flipping one
  bit of the envelope behind its 12-byte IV, in the ciphertext or in the tag, makes
  \<open>decrypt\<close> under the same key fail with \<open>AuthenticationFailure\<close>; so it returns no
  plaintext at all. It rests on the cipher of the platform rejecting its own output with
  one bit flipped, for this key and plaintext under every 12-byte IV.
\<close>

theorem tampered_envelope_rejected:
  assumes tl: "\<forall>nonce. length nonce = 12 \<longrightarrow> gcm_tag_length pf key nonce b"
      and rj: "\<forall>nonce. length nonce = 12 \<longrightarrow> gcm_rejects_bit_flips pf key nonce b"
      and lo: "8 * 12 \<le> n"
      and hi: "n < 8 * length (data (fst (encrypt pf b key ent)))"
  shows "fst (decrypt pf (flip_envelope_bit (data (fst (encrypt pf b key ent))) n) key)
           = Inl AuthenticationFailure"
proof -
  let ?nonce = "fst (getRandomValues 12 ent)"
  let ?c = "aes_gcm_encrypt pf key ?nonce b"
  let ?e = "?nonce @ ?c"
  let ?i = "n div 8"
  let ?y = "flip_bit (n mod 8) (?e ! ?i)"
  define k where "k = n - 96"
  have n: "length ?nonce = 12"
    by (simp add: length_getRandomValues)
  have c: "length ?c = length b + 16"
    using tl n by (simp add: gcm_tag_length_def)
  have d: "data (fst (encrypt pf b key ent)) = ?e"
    by (simp add: encrypt_data IV_LENGTH_def)
  have i: "12 \<le> ?i"
    using lo by simp
  have m: "k < 8 * length ?c"
    using lo hi n by (simp add: d k_def)
  have nk: "n = k + 12 * 8"
    using lo by (simp add: k_def)
  have "(k + 12 * 8) div 8 = 12 + k div 8"
    by (rule div_mult_self1) simp
  then have idx: "k div 8 = ?i - 12"
    using nk by simp
  have "(k + 12 * 8) mod 8 = k mod 8"
    by (rule mod_mult_self1)
  then have bit: "k mod 8 = n mod 8"
    using nk by simp
  have nth: "?e ! ?i = ?c ! (?i - 12)"
    using i n by (simp add: nth_append)
  have t: "take 12 (flip_envelope_bit ?e n) = ?nonce"
    using i n by (simp add: flip_envelope_bit_def)
  have "drop 12 (flip_envelope_bit ?e n) = (drop 12 ?e)[?i - 12 := ?y]"
    using i unfolding flip_envelope_bit_def by (rule drop_update_swap)
  then have dr: "drop 12 (flip_envelope_bit ?e n) = flip_envelope_bit ?c k"
    using n by (simp add: flip_envelope_bit_def idx bit nth)
  have "aes_gcm_decrypt pf key ?nonce (flip_envelope_bit ?c k) = None"
    using rj n m by (simp add: gcm_rejects_bit_flips_def)
  moreover have "28 \<le> length (flip_envelope_bit ?e n)"
    using n c by (simp add: flip_envelope_bit_def)
  ultimately show ?thesis
    by (simp add: d decrypt_long t dr)
qed

theorem tampered_envelope_rejected_witness:
  "fst (decrypt xor_platform
          (flip_envelope_bit
             (data (fst (encrypt xor_platform [104, 101, 108, 108, 111]
                           (CryptoKey (replicate 32 9)) example_entropy))) 100)
          (CryptoKey (replicate 32 9))) = Inl AuthenticationFailure"
proof -
  have "length (data (fst (encrypt xor_platform [104, 101, 108, 108, 111]
                        (CryptoKey (replicate 32 9)) example_entropy))) = 33"
    by (simp add: encrypt_data length_getRandomValues IV_LENGTH_def xor_platform_def
        xor_encrypt_def xor_tag_def Let_def)
  then show ?thesis
    using tampered_envelope_rejected [of xor_platform "CryptoKey (replicate 32 9)"
        "[104, 101, 108, 108, 111]" 100 example_entropy]
    by (simp add: xor_platform_rejects_bit_flips xor_platform_tag_length)
qed


subsection \<open>The key of the worked example\<close>

lemma example_key_data:
  "key_data (fst (generateKey example_entropy))
     = [1, 8, 15, 22, 29, 36, 43, 50, 57, 64, 71, 78, 85, 92, 99, 106, 113, 120, 127, 134,
        141, 148, 155, 162, 169, 176, 183, 190, 197, 204, 211, 218]"
  by code_simp

lemma example_key_length: "length (key_data (fst (generateKey example_entropy))) = 32"
  unfolding example_key_data by simp

lemma example_key_codec:
  "fromBase64 xor_platform (toBase64 xor_platform (key_data (fst (generateKey example_entropy))))
     = key_data (fst (generateKey example_entropy))"
  by (rule xor_platform_codec)

lemma example_key_export_nonempty:
  "exportKey xor_platform (fst (generateKey example_entropy)) \<noteq> []"
proof -
  have "key_data (fst (generateKey example_entropy)) \<noteq> []"
    unfolding example_key_data by simp
  then show ?thesis
    by (simp add: exportKey_def subtle_exportKey_raw_def xor_platform_def b64_encode_nonempty)
qed

subsection \<open>Keys\<close>

text \<open>
  C6. For every string whose base64 decoding has a length other than 32 bytes,
  \<open>importKey\<close> fails with \<open>InvalidKeyLength\<close>; for every string that decodes to
  exactly 32 bytes it succeeds, and the key it returns holds those 32 bytes.
\<close>

theorem importKey_length_validation:
  "(length (fromBase64 pf s) \<noteq> 32 \<longrightarrow> importKey pf s = Inl InvalidKeyLength) \<and>
   (length (fromBase64 pf s) = 32 \<longrightarrow>
      importKey pf s = Inr (CryptoKey (fromBase64 pf s)) \<and>
      subtle_exportKey_raw (CryptoKey (fromBase64 pf s)) = fromBase64 pf s)"
  by (simp add: importKey_def subtle_importKey_raw_def subtle_exportKey_raw_def)

theorem importKey_length_validation_witness:
  "importKey xor_platform ''aGVsbG8='' = Inl InvalidKeyLength \<and>
   importKey xor_platform ''AAECAwQFBgcICQoLDA0ODxAREhMUFRYXGBkaGxwdHh8=''
     = Inr (CryptoKey [0, 1, 2, 3, 4, 5, 6, 7, 8, 9, 10, 11, 12, 13, 14, 15, 16, 17, 18, 19,
                       20, 21, 22, 23, 24, 25, 26, 27, 28, 29, 30, 31])"
proof -
  have short: "fromBase64 xor_platform ''aGVsbG8='' = [104, 101, 108, 108, 111]"
    by (simp add: xor_platform_def b64_decode_def b64_alphabet_def List.map_filter_def)
  have full: "fromBase64 xor_platform ''AAECAwQFBgcICQoLDA0ODxAREhMUFRYXGBkaGxwdHh8=''
      = [0, 1, 2, 3, 4, 5, 6, 7, 8, 9, 10, 11, 12, 13, 14, 15, 16, 17, 18, 19,
         20, 21, 22, 23, 24, 25, 26, 27, 28, 29, 30, 31]"
    by (simp add: xor_platform_def b64_decode_def b64_alphabet_def List.map_filter_def)
  have "length (fromBase64 xor_platform ''aGVsbG8='') \<noteq> 32"
    by (simp add: short)
  then have a: "importKey xor_platform ''aGVsbG8='' = Inl InvalidKeyLength"
    using importKey_length_validation [of xor_platform "''aGVsbG8=''"] by blast
  have "length (fromBase64 xor_platform ''AAECAwQFBgcICQoLDA0ODxAREhMUFRYXGBkaGxwdHh8='') = 32"
    by (simp add: full)
  then have "importKey xor_platform ''AAECAwQFBgcICQoLDA0ODxAREhMUFRYXGBkaGxwdHh8=''
      = Inr (CryptoKey (fromBase64 xor_platform ''AAECAwQFBgcICQoLDA0ODxAREhMUFRYXGBkaGxwdHh8=''))"
    using importKey_length_validation [of xor_platform
        "''AAECAwQFBgcICQoLDA0ODxAREhMUFRYXGBkaGxwdHh8=''"] by blast
  then show ?thesis
    using a by (simp add: full)
qed

text \<open>
  C8. For every key of 32 raw bytes, importing the string \<open>exportKey\<close> made of it gives
  the same key back: export followed by import is the identity on key material. It rests
  on the base64 codec of the platform decoding what it encoded of these bytes.
\<close>

theorem exportKey_importKey_roundtrip:
  assumes "length (key_data key) = 32"
      and "fromBase64 pf (toBase64 pf (key_data key)) = key_data key"
  shows "importKey pf (exportKey pf key) = Inr key \<and>
         (\<forall>key'. importKey pf (exportKey pf key) = Inr key' \<longrightarrow> key_data key' = key_data key)"
  using assms
  by (simp add: importKey_def exportKey_def subtle_importKey_raw_def subtle_exportKey_raw_def)

theorem exportKey_importKey_roundtrip_witness:
  "importKey xor_platform (exportKey xor_platform (fst (generateKey example_entropy)))
     = Inr (fst (generateKey example_entropy))"
  using exportKey_importKey_roundtrip [OF example_key_length example_key_codec]
  by blast

text \<open>
  C9. \<open>deriveKey\<close> is a function of the password and the salt alone: its result is the
  same on every random tape, and it leaves the tape as it was. It derives the key by one
  call of PBKDF2 on the encoded password, with the given salt, SHA-256 and 100000
  iterations, asking for 256 bits; where the platform gives the 256 bits asked for, the
  key holds exactly these 32 bytes. \<open>generateSalt\<close> returns the next 16 bytes of the
  random source and moves the tape past them.
\<close>

theorem deriveKey_pbkdf2:
  "(let run = deriveKey pf password salt ent;
        pw = utf8_encode pf password
    in (\<exists>params.
          fst (snd run) = [SubtleImportPassword pw, SubtleDeriveKey params pw 256] \<and>
          kdf_salt params = salt \<and> kdf_hash params = SHA_256 \<and>
          kdf_iterations params = 100000 \<and> 100000 \<le> kdf_iterations params \<and>
          fst run = subtle_importKey_raw (pbkdf2_bits pf params pw 256) \<and>
          (8 * length (pbkdf2_bits pf params pw 256) = 256 \<longrightarrow>
             (\<exists>key. fst run = Inr key \<and> 8 * length (key_data key) = 256 \<and>
                key_data key = pbkdf2_bits pf params pw 256))) \<and>
       snd (snd run) = ent \<and>
       (\<forall>ent'. fst (deriveKey pf password salt ent') = fst run)) \<and>
   generateSalt ent = (map ent [0..<16], \<lambda>i. ent (i + 16)) \<and>
   length (fst (generateSalt ent)) = 16"
proof -
  let ?params = "\<lparr>kdf_salt = salt, kdf_iterations = 100000, kdf_hash = SHA_256\<rparr>"
  let ?pw = "utf8_encode pf password"
  have calls: "fst (snd (deriveKey pf password salt ent))
      = [SubtleImportPassword ?pw, SubtleDeriveKey ?params ?pw 256]"
    by (simp add: deriveKey_def Let_def ALGORITHM_length_def)
  have result: "fst (deriveKey pf password salt e) = subtle_importKey_raw (pbkdf2_bits pf ?params ?pw 256)"
    for e
    by (simp add: deriveKey_def Let_def subtle_deriveKey_def ALGORITHM_length_def)
  have key: "8 * length (pbkdf2_bits pf ?params ?pw 256) = 256 \<longrightarrow>
      (\<exists>key. fst (deriveKey pf password salt ent) = Inr key \<and> 8 * length (key_data key) = 256 \<and>
         key_data key = pbkdf2_bits pf ?params ?pw 256)"
    by (simp add: result subtle_importKey_raw_def)
  have tape: "snd (snd (deriveKey pf password salt ent)) = ent"
    by (simp add: deriveKey_def Let_def)
  have same: "\<forall>ent'. fst (deriveKey pf password salt ent') = fst (deriveKey pf password salt ent)"
    by (simp add: result)
  have params: "kdf_salt ?params = salt \<and> kdf_hash ?params = SHA_256 \<and>
      kdf_iterations ?params = 100000 \<and> 100000 \<le> kdf_iterations ?params"
    by simp
  have salt16: "generateSalt ent = (map ent [0..<16], \<lambda>i. ent (i + 16))"
    by (simp add: generateSalt_def getRandomValues_def)
  have len: "length (fst (generateSalt ent)) = 16"
    by (simp add: generateSalt_def length_getRandomValues)
  from calls result [of ent] key params have
    "\<exists>params.
       fst (snd (deriveKey pf password salt ent))
         = [SubtleImportPassword ?pw, SubtleDeriveKey params ?pw 256] \<and>
       kdf_salt params = salt \<and> kdf_hash params = SHA_256 \<and>
       kdf_iterations params = 100000 \<and> 100000 \<le> kdf_iterations params \<and>
       fst (deriveKey pf password salt ent) = subtle_importKey_raw (pbkdf2_bits pf params ?pw 256) \<and>
       (8 * length (pbkdf2_bits pf params ?pw 256) = 256 \<longrightarrow>
          (\<exists>key. fst (deriveKey pf password salt ent) = Inr key \<and>
             8 * length (key_data key) = 256 \<and>
             key_data key = pbkdf2_bits pf params ?pw 256))"
    by blast
  with tape same salt16 len show ?thesis
    unfolding Let_def by blast
qed

theorem deriveKey_pbkdf2_witness:
  "(\<exists>key. fst (deriveKey xor_platform ''hunter2'' (fst (generateSalt example_entropy))
              example_entropy) = Inr key \<and>
      8 * length (key_data key) = 256) \<and>
   fst (generateSalt example_entropy)
     = [1, 8, 15, 22, 29, 36, 43, 50, 57, 64, 71, 78, 85, 92, 99, 106]"
proof -
  let ?salt = "fst (generateSalt example_entropy)"
  note C = deriveKey_pbkdf2 [of xor_platform "''hunter2''" ?salt example_entropy,
      unfolded Let_def]
  from C obtain params where
    imp: "8 * length (pbkdf2_bits xor_platform params (utf8_encode xor_platform ''hunter2'') 256)
        = 256 \<longrightarrow>
      (\<exists>key. fst (deriveKey xor_platform ''hunter2'' ?salt example_entropy) = Inr key \<and>
         8 * length (key_data key) = 256 \<and>
         key_data key = pbkdf2_bits xor_platform params (utf8_encode xor_platform ''hunter2'') 256)"
    by blast
  have "8 * length (pbkdf2_bits xor_platform params (utf8_encode xor_platform ''hunter2'') 256)
      = 256"
    by (simp add: xor_platform_def xor_kdf_def)
  with imp have key: "\<exists>key. fst (deriveKey xor_platform ''hunter2'' ?salt example_entropy) = Inr key \<and>
      8 * length (key_data key) = 256"
    by blast
  from C have "generateSalt example_entropy
      = (map example_entropy [0..<16], \<lambda>i. example_entropy (i + 16))"
    by blast
  then have "?salt = map example_entropy [0..<16]"
    by simp
  also have "\<dots> = [1, 8, 15, 22, 29, 36, 43, 50, 57, 64, 71, 78, 85, 92, 99, 106]"
    by code_simp
  finally show ?thesis
    using key by blast
qed

text \<open>
  C10. The standalone \<open>importKey\<close> exported at the package root validates no length:
  for every string it hands the decoded bytes to the key import of the platform and
  never fails with \<open>InvalidKeyLength\<close>. A string that decodes to 16 or 24 bytes, which
  the method \<open>importKey\<close> of \<open>HelixEncryption\<close> refuses, gives a key of these bytes.
\<close>

theorem standalone_importKey_no_length_validation:
  "standalone_importKey pf s = subtle_importKey_raw (fromBase64 pf s) \<and>
   standalone_importKey pf s \<noteq> Inl InvalidKeyLength \<and>
   (length (fromBase64 pf s) \<in> {16, 24} \<longrightarrow>
      standalone_importKey pf s = Inr (CryptoKey (fromBase64 pf s)) \<and>
      importKey pf s = Inl InvalidKeyLength)"
  by (auto simp add: standalone_importKey_def importKey_def subtle_importKey_raw_def)

theorem standalone_importKey_no_length_validation_witness:
  "standalone_importKey xor_platform ''AAECAwQFBgcICQoLDA0ODw==''
     = Inr (CryptoKey [0, 1, 2, 3, 4, 5, 6, 7, 8, 9, 10, 11, 12, 13, 14, 15]) \<and>
   importKey xor_platform ''AAECAwQFBgcICQoLDA0ODw=='' = Inl InvalidKeyLength"
proof -
  have d: "fromBase64 xor_platform ''AAECAwQFBgcICQoLDA0ODw==''
      = [0, 1, 2, 3, 4, 5, 6, 7, 8, 9, 10, 11, 12, 13, 14, 15]"
    by (simp add: xor_platform_def b64_decode_def b64_alphabet_def List.map_filter_def)
  have "length (fromBase64 xor_platform ''AAECAwQFBgcICQoLDA0ODw=='') \<in> {16, 24}"
    by (simp add: d)
  then have "standalone_importKey xor_platform ''AAECAwQFBgcICQoLDA0ODw==''
        = Inr (CryptoKey (fromBase64 xor_platform ''AAECAwQFBgcICQoLDA0ODw=='')) \<and>
      importKey xor_platform ''AAECAwQFBgcICQoLDA0ODw=='' = Inl InvalidKeyLength"
    using standalone_importKey_no_length_validation [of xor_platform "''AAECAwQFBgcICQoLDA0ODw==''"]
    by blast
  then show ?thesis
    by (simp add: d)
qed


subsection \<open>Upload\<close>

lemma importKey_exportKey:
  assumes "length (key_data key) = 32"
      and "fromBase64 pf (toBase64 pf (key_data key)) = key_data key"
  shows "importKey pf (exportKey pf key) = Inr key"
  using assms
  by (simp add: importKey_def exportKey_def subtle_importKey_raw_def subtle_exportKey_raw_def)

lemma uploadFile_encrypted_succeeds:
  assumes "authToken c \<noteq> None"
      and "opt_encrypt options \<noteq> Some False"
      and "exportKey pf (fst (generateKey ent)) \<noteq> []"
      and "importKey pf (exportKey pf (fst (generateKey ent))) = Inr nameKey"
      and "\<forall>payload mime w msg. uploadToArweave files payload mime w \<noteq> Inl msg"
      and "\<forall>token params msg. create files token params \<noteq> Inl msg"
  shows "\<exists>r. fst (uploadFile pf files c file options ent) = Inr r"
  using assms
  by (auto simp add: uploadFile_def isAuthenticated_def Let_def
      split: prod.splits sum.splits option.splits if_splits)

lemma uploadFile_without_token:
  "authToken c = None \<Longrightarrow>
     uploadFile pf files c file options ent = (Inl NotAuthenticated, [], ent)"
  by (simp add: uploadFile_def isAuthenticated_def)

text \<open>
  C3. An upload made while the client holds no token, or an expired token, fails with
  \<open>NotAuthenticated\<close> before any call to the transport. The code keeps this for a client
  that holds no token (\<open>uploadFile_without_token\<close>) and breaks it for an expired one:
  \<open>isAuthenticated\<close>, documented as the check for a valid token, only tests that a token
  is held. The worked client holds a token that \<open>isTokenExpired\<close> finds expired, and
  its upload is handed to the transport, registered and returned.
\<close>

theorem uploadFile_expired_token_proceeds:
  "isTokenExpired example_decode 1800000000000 ''header.payload.signature'' \<and>
   authToken example_client = Some ''header.payload.signature'' \<and>
   uploadFile xor_platform example_files example_client [104, 101, 108, 108, 111]
     \<lparr>opt_name = ''hello.txt'', opt_mimeType = ''text/plain'', opt_encrypt = Some False\<rparr>
     example_entropy
     = (Inr \<lparr>res_transactionId = ''abc123'', res_encryptionKey = None,
              res_arweaveUrl = ''https://arweave.net/abc123''\<rparr>,
        [UploadToArweave [104, 101, 108, 108, 111] ''text/plain''
           (Some \<lparr>publicKey = Some ''wallet''\<rparr>),
         Create \<lparr>transactionId = ''abc123'', encryptedName = None, mimeType = ''text/plain'',
                  fileSize = 5, isEncrypted = False\<rparr>],
        example_entropy)"
  by (simp add: isTokenExpired_def parseToken_def example_decode_def example_client_def
      uploadFile_def isAuthenticated_def example_files_def Let_def)

text \<open>
  C7. Every upload that passes the guard encrypts exactly when \<open>options.encrypt\<close> is
  not \<open>false\<close>; left out, it counts as \<open>true\<close>. When it encrypts, the payload handed
  to the transport is the envelope of the file under a fresh key; otherwise it is the file
  itself. Every upload that returns a result has made two calls, the transport's with
  this payload and then the registry's, with a record whose \<open>isEncrypted\<close> is this
  condition, whose transaction is the one returned, and whose size is the file's; its
  result holds the exported key exactly under this condition, and no key otherwise. A
  record sent by an upload that then fails carries the same \<open>isEncrypted\<close>.
\<close>

theorem uploadFile_encrypts_unless_false:
  "(let on = (opt_encrypt options \<noteq> Some False);
        key = fst (generateKey ent);
        envelope = data (fst (encrypt pf file key (snd (generateKey ent))));
        run = uploadFile pf files c file options ent
    in (authToken c \<noteq> None \<longrightarrow>
          (\<exists>rest. fst (snd run)
             = UploadToArweave (if on then envelope else file) (opt_mimeType options) (wallet c)
                 # rest)) \<and>
       (\<forall>params. Create params \<in> set (fst (snd run)) \<longrightarrow> isEncrypted params = on) \<and>
       (\<forall>r. fst run = Inr r \<longrightarrow>
          res_encryptionKey r = (if on then Some (exportKey pf key) else None) \<and>
          (res_encryptionKey r \<noteq> None \<longleftrightarrow> on) \<and>
          (\<exists>encName. fst (snd run)
             = [UploadToArweave (if on then envelope else file) (opt_mimeType options) (wallet c),
                Create \<lparr>transactionId = res_transactionId r, encryptedName = encName,
                         mimeType = opt_mimeType options, fileSize = length file,
                         isEncrypted = on\<rparr>])))"
  unfolding Let_def
  by (auto simp add: uploadFile_def isAuthenticated_def Let_def
      split: prod.splits sum.splits option.splits if_splits)

theorem uploadFile_encrypts_unless_false_witness:
  "\<exists>r encName.
     uploadFile xor_platform example_files example_client [104, 101, 108, 108, 111]
       \<lparr>opt_name = ''hello.txt'', opt_mimeType = ''text/plain'', opt_encrypt = None\<rparr>
       example_entropy
     = (Inr r,
        [UploadToArweave
           (data (fst (encrypt xor_platform [104, 101, 108, 108, 111]
                    (fst (generateKey example_entropy)) (snd (generateKey example_entropy)))))
           ''text/plain'' (wallet example_client),
         Create \<lparr>transactionId = res_transactionId r, encryptedName = encName,
                  mimeType = ''text/plain'', fileSize = 5, isEncrypted = True\<rparr>],
        snd (snd (uploadFile xor_platform example_files example_client
          [104, 101, 108, 108, 111]
          \<lparr>opt_name = ''hello.txt'', opt_mimeType = ''text/plain'', opt_encrypt = None\<rparr>
          example_entropy))) \<and>
     res_encryptionKey r = Some (exportKey xor_platform (fst (generateKey example_entropy)))"
proof -
  let ?options = "\<lparr>opt_name = ''hello.txt'', opt_mimeType = ''text/plain'', opt_encrypt = None\<rparr>"
  let ?run = "uploadFile xor_platform example_files example_client [104, 101, 108, 108, 111]
      ?options example_entropy"
  have token: "authToken example_client \<noteq> None"
    by (simp add: example_client_def)
  have on: "opt_encrypt ?options \<noteq> Some False"
    by simp
  have "importKey xor_platform (exportKey xor_platform (fst (generateKey example_entropy)))
      = Inr (fst (generateKey example_entropy))"
    using example_key_length example_key_codec by (rule importKey_exportKey)
  moreover have "\<forall>payload mime w msg. uploadToArweave example_files payload mime w \<noteq> Inl msg"
    by (simp add: example_files_def)
  moreover have "\<forall>token params msg. create example_files token params \<noteq> Inl msg"
    by (simp add: example_files_def)
  ultimately obtain r where run: "fst ?run = Inr r"
    using token on example_key_export_nonempty uploadFile_encrypted_succeeds by blast
  from on run
    uploadFile_encrypts_unless_false [of ?options example_entropy xor_platform
      "[104, 101, 108, 108, 111]" example_files example_client, unfolded Let_def]
  obtain encName where
    key: "res_encryptionKey r = Some (exportKey xor_platform (fst (generateKey example_entropy)))"
    and calls: "fst (snd ?run)
      = [UploadToArweave
           (data (fst (encrypt xor_platform [104, 101, 108, 108, 111]
                    (fst (generateKey example_entropy)) (snd (generateKey example_entropy)))))
           ''text/plain'' (wallet example_client),
         Create \<lparr>transactionId = res_transactionId r, encryptedName = encName,
                  mimeType = ''text/plain'', fileSize = 5, isEncrypted = True\<rparr>]"
    by auto
  have "?run = (fst ?run, fst (snd ?run), snd (snd ?run))"
    by simp
  then have "?run = (Inr r,
      [UploadToArweave
           (data (fst (encrypt xor_platform [104, 101, 108, 108, 111]
                    (fst (generateKey example_entropy)) (snd (generateKey example_entropy)))))
           ''text/plain'' (wallet example_client),
         Create \<lparr>transactionId = res_transactionId r, encryptedName = encName,
                  mimeType = ''text/plain'', fileSize = 5, isEncrypted = True\<rparr>],
      snd (snd ?run))"
    by (simp only: run calls)
  with key show ?thesis
    by blast
qed

end
